theory Spec2Isabelle
  imports
    Complex_Main
    "HOL-Library.Char_ord"
    "HOL-Library.List_Lexorder"
begin

section \<open>Text primitives\<close>

text \<open>
  Python strings are modelled as \<^typ>\<open>string\<close>: a list of 8-bit characters, read as
  the code points 0 to 255. The character classes below are the ones Python 3 uses on
  \<^verbatim>\<open>str\<close> for these code points: \<^verbatim>\<open>str.lower\<close>, \<^verbatim>\<open>str.isspace\<close> (which is also
  the regular expression class \<^verbatim>\<open>\s\<close> and what \<^verbatim>\<open>str.split()\<close> splits on), \<^verbatim>\<open>\d\<close> and
  \<^verbatim>\<open>\w\<close>. The order on strings is the lexicographic order on code points, which is how
  Python compares \<^verbatim>\<open>str\<close> values.
\<close>

definition lower_char :: "char \<Rightarrow> char" where
  "lower_char c =
     (let n = (of_char c :: nat)
      in if (65 \<le> n \<and> n \<le> 90) \<or> (192 \<le> n \<and> n \<le> 222 \<and> n \<noteq> 215)
         then char_of (n + 32) else c)"

definition upper_char :: "char \<Rightarrow> char" where
  "upper_char c =
     (let n = (of_char c :: nat)
      in if (97 \<le> n \<and> n \<le> 122) \<or> (224 \<le> n \<and> n \<le> 254 \<and> n \<noteq> 247)
         then char_of (n - 32) else c)"

definition lower :: "string \<Rightarrow> string" where
  "lower s = map lower_char s"

definition is_space :: "char \<Rightarrow> bool" where
  "is_space c =
     (c \<in> set [CHR 0x20, CHR 0x09, CHR 0x0A, CHR 0x0B, CHR 0x0C, CHR 0x0D,
                CHR 0x1C, CHR 0x1D, CHR 0x1E, CHR 0x1F, CHR 0x85, CHR 0xA0])"

definition is_digit :: "char \<Rightarrow> bool" where
  "is_digit c = (c \<in> set ''0123456789'')"

definition is_alpha :: "char \<Rightarrow> bool" where
  "is_alpha c =
     (let n = (of_char c :: nat)
      in (65 \<le> n \<and> n \<le> 90) \<or> (97 \<le> n \<and> n \<le> 122) \<or> n = 170 \<or> n = 181 \<or> n = 186
         \<or> (192 \<le> n \<and> n \<le> 214) \<or> (216 \<le> n \<and> n \<le> 246) \<or> 248 \<le> n)"

definition is_word :: "char \<Rightarrow> bool" where
  "is_word c =
     (let n = (of_char c :: nat)
      in is_alpha c \<or> is_digit c \<or> n = 95 \<or> n = 178 \<or> n = 179 \<or> n = 185
         \<or> (188 \<le> n \<and> n \<le> 190))"

definition not_space :: "char \<Rightarrow> bool" where
  "not_space c = (\<not> is_space c)"

text \<open>\<^verbatim>\<open>s.strip()\<close>: whitespace removed at both ends.\<close>

definition strip :: "string \<Rightarrow> string" where
  "strip s = rev (dropWhile is_space (rev (dropWhile is_space s)))"

text \<open>\<^verbatim>\<open>s.split()\<close>: the maximal runs of non-whitespace characters.\<close>

function py_split :: "string \<Rightarrow> string list" where
  "py_split s =
     (case dropWhile is_space s of
        [] \<Rightarrow> []
      | c # cs \<Rightarrow> takeWhile not_space (c # cs) # py_split (dropWhile not_space cs))"
  by pat_completeness auto
termination
proof (relation "measure length")
  show "wf (measure length)" by simp
next
  fix s :: string and c cs
  assume a: "dropWhile is_space s = c # cs"
  have "length (dropWhile not_space cs) \<le> length cs"
    by (rule length_dropWhile_le)
  moreover have "length (c # cs) \<le> length s"
    using length_dropWhile_le [of is_space s] a by simp
  ultimately show "(dropWhile not_space cs, s) \<in> measure length"
    by simp
qed

text \<open>\<^verbatim>\<open>sep.join(xs)\<close>.\<close>

fun join :: "string \<Rightarrow> string list \<Rightarrow> string" where
  "join sep [] = []"
| "join sep [x] = x"
| "join sep (x # y # ys) = x @ sep @ join sep (y # ys)"

text \<open>\<^verbatim>\<open>kw in text\<close> on strings: \<open>kw\<close> occurs as a contiguous substring.\<close>

fun starts_with :: "string \<Rightarrow> string \<Rightarrow> bool" where
  "starts_with [] t = True"
| "starts_with (p # ps) [] = False"
| "starts_with (p # ps) (c # cs) = (p = c \<and> starts_with ps cs)"

fun contains :: "string \<Rightarrow> string \<Rightarrow> bool" where
  "contains kw [] = (kw = [])"
| "contains kw (c # cs) = (starts_with kw (c # cs) \<or> contains kw cs)"

text \<open>
  The only exception the analysis can raise is \<^verbatim>\<open>ValueError\<close>. \<^verbatim>\<open>int(m)\<close> on
  a string of decimal digits raises it when the string has more digits than the
  interpreter's limit on conversions between \<^verbatim>\<open>int\<close> and \<^verbatim>\<open>str\<close>
  (\<^verbatim>\<open>sys.int_max_str_digits\<close>, 4300 unless reconfigured); leading zeros count.
\<close>

datatype error = ValueError

definition max_str_digits :: nat where
  "max_str_digits = 4300"

definition digit_val :: "char \<Rightarrow> nat" where
  "digit_val c = of_char c - 48"

definition digits_value :: "string \<Rightarrow> nat" where
  "digits_value s = foldl (\<lambda>acc c. 10 * acc + digit_val c) 0 s"

definition int_of_digits :: "string \<Rightarrow> error + nat" where
  "int_of_digits m =
     (if max_str_digits < length m then Inl ValueError else Inr (digits_value m))"

text \<open>
  \<^verbatim>\<open>str(n)\<close> on a natural number. The numbers the program formats are counts of words
  and of matches and a number of years that \<^verbatim>\<open>int\<close> has returned, all within the limit
  above.
\<close>

fun digits_of :: "nat \<Rightarrow> nat \<Rightarrow> string" where
  "digits_of 0 n = []"
| "digits_of (Suc fuel) n =
     (if n < 10 then [char_of (48 + n)]
      else digits_of fuel (n div 10) @ [char_of (48 + n mod 10)])"

definition str_nat :: "nat \<Rightarrow> string" where
  "str_nat n = digits_of (Suc n) n"

section \<open>Regular expressions\<close>

text \<open>
  The fragment of Python's \<^verbatim>\<open>re\<close> that the program uses, as a backtracking matcher.
  \<open>Rep cls lo hi\<close> is a greedy repetition of a character class (\<^verbatim>\<open>*\<close>, \<^verbatim>\<open>+\<close>,
  \<^verbatim>\<open>{m,n}\<close>: every repetition in the program's patterns is over a single class),
  \<open>Bol\<close> and \<open>Eol\<close> are \<^verbatim>\<open>^\<close> and \<^verbatim>\<open>$\<close>, \<open>Grp\<close> is the capturing group (the
  patterns have at most one). A match state is whether the position is the start of the
  whole text, the text still to read, and what the group captured. \<open>rmatch\<close> lists the
  states after every way of matching, in the order in which a backtracking matcher tries
  them, so the head of the list is the match Python reports.
\<close>

datatype regex =
    Eps
  | Cls "char \<Rightarrow> bool"
  | Seq regex regex
  | Alt regex regex
  | Rep "char \<Rightarrow> bool" nat "nat option"
  | Bol
  | Eol
  | Grp regex

type_synonym mstate = "bool \<times> string \<times> string option"

fun rmatch :: "regex \<Rightarrow> mstate \<Rightarrow> mstate list" where
  "rmatch Eps st = [st]"
| "rmatch (Cls p) (b, s, g) =
     (case s of [] \<Rightarrow> [] | c # cs \<Rightarrow> if p c then [(False, cs, g)] else [])"
| "rmatch (Seq r1 r2) st = concat (map (rmatch r2) (rmatch r1 st))"
| "rmatch (Alt r1 r2) st = rmatch r1 st @ rmatch r2 st"
| "rmatch (Rep p lo hi) (b, s, g) =
     (let n = length (takeWhile p s);
          m = (case hi of None \<Rightarrow> n | Some h \<Rightarrow> min n h)
      in map (\<lambda>k. (b \<and> k = 0, drop k s, g)) (rev [lo..<Suc m]))"
| "rmatch Bol (b, s, g) = (if b then [(b, s, g)] else [])"
| "rmatch Eol (b, s, g) = (if s = [] \<or> s = [CHR 0x0A] then [(b, s, g)] else [])"
| "rmatch (Grp r) (b, s, g) =
     map (\<lambda>(b', s', g'). (b', s', Some (take (length s - length s') s))) (rmatch r (b, s, g))"

definition lit :: "string \<Rightarrow> regex" where
  "lit s = foldr (\<lambda>c r. Seq (Cls (\<lambda>x. x = c)) r) s Eps"

definition seqs :: "regex list \<Rightarrow> regex" where
  "seqs rs = foldr Seq rs Eps"

definition opt :: "regex \<Rightarrow> regex" where
  "opt r = Alt r Eps"

text \<open>\<^verbatim>\<open>re.search\<close>: is there a match starting at some position.\<close>

fun search_from :: "regex \<Rightarrow> bool \<Rightarrow> string \<Rightarrow> bool" where
  "search_from r b [] = (rmatch r (b, [], None) \<noteq> [])"
| "search_from r b (c # cs) = (rmatch r (b, c # cs, None) \<noteq> [] \<or> search_from r False cs)"

definition re_search :: "regex \<Rightarrow> string \<Rightarrow> bool" where
  "re_search r s = search_from r True s"

text \<open>
  \<^verbatim>\<open>re.findall\<close>: the matches found scanning from the left, each search starting where
  the last match ended (one character further after an empty match). Each entry is the
  matched text and the group.
\<close>

function findall_from :: "regex \<Rightarrow> bool \<Rightarrow> string \<Rightarrow> (string \<times> string option) list" where
  "findall_from r b s =
     (case rmatch r (b, s, None) of
        [] \<Rightarrow> (case s of [] \<Rightarrow> [] | c # cs \<Rightarrow> findall_from r False cs)
      | (b', s', g) # rest \<Rightarrow>
          (take (length s - length s') s, g) #
          (if length s - length s' = 0
           then (case s of [] \<Rightarrow> [] | c # cs \<Rightarrow> findall_from r False cs)
           else findall_from r False (drop (length s - length s') s)))"
  by pat_completeness auto
termination
  by (relation "measure (\<lambda>(r, b, s). length s)") auto

text \<open>With no group in the pattern \<^verbatim>\<open>findall\<close> returns the matched texts, with one
  group it returns what the group captured.\<close>

definition findall :: "regex \<Rightarrow> string \<Rightarrow> string list" where
  "findall r s = map fst (findall_from r True s)"

definition findall_group :: "regex \<Rightarrow> string \<Rightarrow> string list" where
  "findall_group r s =
     map (\<lambda>(w, g). case g of None \<Rightarrow> [] | Some x \<Rightarrow> x) (findall_from r True s)"


section \<open>The vocabulary\<close>

definition SKILL_ALIASES :: "(string \<times> string) list" where
  "SKILL_ALIASES =
     [(''js'', ''javascript''), (''ts'', ''typescript''), (''py'', ''python''),
      (''node'', ''node.js''), (''nodejs'', ''node.js''), (''react.js'', ''react''),
      (''reactjs'', ''react''), (''vue.js'', ''vue''), (''vuejs'', ''vue''),
      (''angular.js'', ''angular''), (''angularjs'', ''angular''),
      (''postgres'', ''postgresql''), (''mongo'', ''mongodb''), (''k8s'', ''kubernetes''),
      (''ml'', ''machine learning''), (''dl'', ''deep learning''),
      (''ai'', ''artificial intelligence''), (''nlp'', ''natural language processing''),
      (''cv'', ''computer vision''), (''aws'', ''amazon web services''),
      (''gcp'', ''google cloud platform''), (''ci/cd'', ''ci/cd''), (''cicd'', ''ci/cd''),
      (''dotnet'', ''.net''), (''csharp'', ''c#''), (''cpp'', ''c++''), (''golang'', ''go''),
      (''tf'', ''terraform''), (''ui'', ''ui/ux''), (''ux'', ''ui/ux'')]"

definition PROGRAMMING_LANGUAGES :: "string list" where
  "PROGRAMMING_LANGUAGES =
     [''python'', ''java'', ''javascript'', ''typescript'', ''c++'', ''c#'', ''go'', ''rust'',
      ''ruby'', ''php'', ''swift'', ''kotlin'', ''scala'', ''r programming'', ''matlab'',
      ''perl'', ''bash'', ''shell scripting'', ''powershell'', ''objective-c'', ''dart'']"

definition FRAMEWORKS_LIBRARIES :: "string list" where
  "FRAMEWORKS_LIBRARIES =
     [''react'', ''angular'', ''vue'', ''node.js'', ''express'', ''django'', ''flask'',
      ''fastapi'', ''spring'', ''spring boot'', ''.net'', ''rails'', ''laravel'',
      ''next.js'', ''nuxt.js'', ''svelte'', ''jquery'', ''bootstrap'', ''tailwind'',
      ''material ui'', ''redux'', ''mobx'', ''graphql'', ''rest api'']"

definition DATABASES :: "string list" where
  "DATABASES =
     [''sql'', ''mysql'', ''postgresql'', ''mongodb'', ''redis'', ''elasticsearch'',
      ''cassandra'', ''dynamodb'', ''oracle'', ''sqlite'', ''neo4j'', ''firebase'',
      ''snowflake'', ''bigquery'', ''couchdb'', ''mariadb'']"

definition CLOUD_DEVOPS :: "string list" where
  "CLOUD_DEVOPS =
     [''aws'', ''amazon web services'', ''azure'', ''gcp'', ''google cloud platform'',
      ''docker'', ''kubernetes'', ''jenkins'', ''terraform'', ''ansible'', ''ci/cd'',
      ''github actions'', ''gitlab ci'', ''circleci'', ''nginx'', ''apache'',
      ''linux'', ''unix'', ''devops'', ''microservices'', ''serverless'']"

definition DATA_AI_ML :: "string list" where
  "DATA_AI_ML =
     [''machine learning'', ''deep learning'', ''artificial intelligence'',
      ''data analysis'', ''data science'', ''pandas'', ''numpy'', ''tensorflow'',
      ''pytorch'', ''keras'', ''scikit-learn'', ''natural language processing'',
      ''computer vision'', ''opencv'', ''hadoop'', ''spark'', ''airflow'',
      ''power bi'', ''tableau'', ''excel'', ''data visualization'', ''statistics'']"

definition TOOLS_PLATFORMS :: "string list" where
  "TOOLS_PLATFORMS =
     [''git'', ''github'', ''gitlab'', ''bitbucket'', ''jira'', ''confluence'',
      ''slack'', ''figma'', ''adobe xd'', ''photoshop'', ''illustrator'',
      ''vs code'', ''intellij'', ''postman'', ''swagger'', ''jupyter'']"

definition SOFT_SKILLS :: "string list" where
  "SOFT_SKILLS =
     [''communication'', ''teamwork'', ''leadership'', ''problem solving'',
      ''time management'', ''critical thinking'', ''adaptability'', ''creativity'',
      ''collaboration'', ''attention to detail'', ''project management'',
      ''analytical skills'', ''interpersonal skills'', ''decision making'',
      ''conflict resolution'', ''presentation skills'', ''negotiation'',
      ''customer service'', ''mentoring'', ''strategic thinking'',
      ''public speaking'', ''technical writing'', ''research'', ''agile'', ''scrum'']"

definition ALL_SKILLS :: "string list" where
  "ALL_SKILLS =
     PROGRAMMING_LANGUAGES @ FRAMEWORKS_LIBRARIES @ DATABASES @ CLOUD_DEVOPS @ DATA_AI_ML @
     TOOLS_PLATFORMS @ SOFT_SKILLS"

text \<open>The dictionaries of keywords are association lists: the source iterates over them
  in the order in which they are written.\<close>

definition EXPERIENCE_LEVELS :: "(string \<times> string list) list" where
  "EXPERIENCE_LEVELS =
     [(''entry'', [''entry level'', ''junior'', ''associate'', ''intern'', ''internship'',
                  ''fresher'', ''graduate'', ''0-1 years'', ''0-2 years'', ''beginner'']),
      (''mid'', [''mid level'', ''mid-level'', ''intermediate'', ''2-4 years'', ''3-5 years'',
                ''2+ years'', ''3+ years'', ''4+ years'']),
      (''senior'', [''senior'', ''lead'', ''principal'', ''staff'', ''architect'',
                   ''5+ years'', ''6+ years'', ''7+ years'', ''8+ years'', ''10+ years'',
                   ''expert'', ''advanced''])]"

definition EDUCATION_KEYWORDS :: "(string \<times> string list) list" where
  "EDUCATION_KEYWORDS =
     [(''phd'', [''phd'', ''ph.d'', ''doctorate'', ''doctoral'']),
      (''masters'', [''master'', ''ms'', ''m.s'', ''msc'', ''m.sc'', ''mba'', ''ma'', ''m.a'']),
      (''bachelors'', [''bachelor'', ''bs'', ''b.s'', ''bsc'', ''b.sc'', ''ba'', ''b.a'',
                      ''btech'', ''b.tech'', ''be'', ''b.e'']),
      (''degree'', [''degree'', ''graduate'', ''graduated'', ''university'', ''college''])]"

section \<open>Skill extraction\<close>

text \<open>\<open>preprocess_text\<close>: each of the two \<^verbatim>\<open>re.sub\<close> calls replaces every character
  of a class by a space, one character at a time.\<close>

definition is_separator :: "char \<Rightarrow> bool" where
  "is_separator c = (c \<in> set (''/|,;:-()[]{}'' @ [CHR 0x5C]))"

definition is_kept :: "char \<Rightarrow> bool" where
  "is_kept c = (is_word c \<or> is_space c \<or> c \<in> set ''.+#'')"

definition preprocess_text :: "string \<Rightarrow> string" where
  "preprocess_text text =
     (let t1 = lower text;
          t2 = map (\<lambda>c. if is_separator c then CHR '' '' else c) t1;
          t3 = map (\<lambda>c. if is_kept c then c else CHR '' '') t2
      in join '' '' (py_split t3))"

definition normalize_skill :: "string \<Rightarrow> string" where
  "normalize_skill skill =
     (let skill_lower = strip (lower skill)
      in case map_of SKILL_ALIASES skill_lower of None \<Rightarrow> skill_lower | Some v \<Rightarrow> v)"

text \<open>The first loop of \<open>extract_skills\<close>: the words are those of the preprocessed text
  before the loop, and each alias appends its expansion to the text.\<close>

definition expand_aliases :: "string \<Rightarrow> string" where
  "expand_aliases text_processed =
     fold (\<lambda>word t. let normalized = normalize_skill word
                     in if normalized \<noteq> word then t @ '' '' @ normalized else t)
          (py_split text_processed) text_processed"

definition is_boundary :: "char \<Rightarrow> bool" where
  "is_boundary c = (is_space c \<or> c \<in> set '',;:-()[]'')"

text \<open>The pattern built for a skill; \<^verbatim>\<open>re.escape\<close> makes the skill a literal.\<close>

definition skill_pattern :: "string \<Rightarrow> regex" where
  "skill_pattern skill_lower =
     Seq (Alt Bol (Cls is_boundary)) (Seq (lit skill_lower) (Alt Eol (Cls is_boundary)))"

text \<open>
  The source collects the skills found in a Python \<^verbatim>\<open>set\<close> and returns
  \<^verbatim>\<open>list(found_skills)\<close>. Python leaves the iteration order of a set unspecified; here
  and in \<open>calculate_match\<close> a set is a duplicate-free list in some order, and what is
  proved about these lists is about their elements or about their sorted form.
\<close>

definition extract_skills :: "string \<Rightarrow> string list \<Rightarrow> string list" where
  "extract_skills text skill_list =
     (let text_processed = expand_aliases (preprocess_text text)
      in remdups (filter (\<lambda>skill. re_search (skill_pattern (lower skill))
                                      ('' '' @ text_processed @ '' '')) skill_list))"

text \<open>\<open>get_skill_frequency\<close> returns a dictionary from skill to count.\<close>

definition get_skill_frequency :: "string \<Rightarrow> string list \<Rightarrow> (string \<rightharpoonup> nat)" where
  "get_skill_frequency text skills =
     (let text_processed = preprocess_text text
      in fold (\<lambda>skill frequency.
                 let matches = findall (skill_pattern (lower skill))
                                       ('' '' @ text_processed @ '' '')
                 in if matches \<noteq> [] then frequency(skill \<mapsto> length matches) else frequency)
              skills Map.empty)"

section \<open>Metadata detectors\<close>

text \<open>The loop shared by \<open>detect_experience_level\<close> and
  \<open>detect_education_requirement\<close>: a level is appended once, at its first keyword
  found (the \<^verbatim>\<open>break\<close>).\<close>

definition detect_levels :: "(string \<times> string list) list \<Rightarrow> string \<Rightarrow> string list" where
  "detect_levels table text_lower =
     map fst (filter (\<lambda>(level, keywords). list_ex (\<lambda>keyword. contains keyword text_lower) keywords)
                     table)"

definition detect_experience_level :: "string \<Rightarrow> string" where
  "detect_experience_level text =
     (let detected = detect_levels EXPERIENCE_LEVELS (lower text)
      in if detected = [] then ''not specified''
         else if ''senior'' \<in> set detected then ''senior''
         else if ''mid'' \<in> set detected then ''mid''
         else ''entry'')"

definition detect_education_requirement :: "string \<Rightarrow> string list" where
  "detect_education_requirement text = detect_levels EDUCATION_KEYWORDS (lower text)"

text \<open>The three patterns of \<open>extract_years_experience\<close>.\<close>

definition years_word :: regex where
  "years_word =
     Alt (Seq (lit ''year'') (opt (lit ''s''))) (Seq (lit ''yr'') (opt (lit ''s'')))"

definition years_tail :: "regex list" where
  "years_tail =
     [opt (lit ''+''), Rep is_space 0 None, years_word, Rep is_space 0 None, opt (lit ''of''),
      Rep is_space 0 None, opt (Alt (lit ''experience'') (lit ''exp''))]"

definition years_pattern_plus :: regex where
  "years_pattern_plus = seqs (Grp (Rep is_digit 1 None) # years_tail)"

definition years_pattern_minimum :: regex where
  "years_pattern_minimum =
     seqs [Alt (lit ''minimum'') (Alt (lit ''at least'') (lit ''min'')), Rep is_space 0 None,
           Grp (Rep is_digit 1 None), Rep is_space 0 None, years_word]"

definition years_pattern_range :: regex where
  "years_pattern_range =
     seqs [Grp (Rep is_digit 1 None), Rep is_space 0 None, lit ''-'', Rep is_space 0 None,
           Rep is_digit 1 None, Rep is_space 0 None, years_word]"

definition years_patterns :: "regex list" where
  "years_patterns = [years_pattern_plus, years_pattern_minimum, years_pattern_range]"

text \<open>
  The list \<open>years\<close> the source builds. \<open>ints_of\<close> is the comprehension
  \<^verbatim>\<open>[int(m) for m in matches if m]\<close>, \<open>years_of\<close> the loop over the patterns that
  extends \<open>years\<close>; the first \<^verbatim>\<open>int\<close> that raises ends both.
\<close>

fun ints_of :: "string list \<Rightarrow> error + nat list" where
  "ints_of [] = Inr []"
| "ints_of (m # ms) =
     (if m = [] then ints_of ms
      else case int_of_digits m of
             Inl e \<Rightarrow> Inl e
           | Inr n \<Rightarrow> (case ints_of ms of Inl e \<Rightarrow> Inl e | Inr ns \<Rightarrow> Inr (n # ns)))"

fun years_of :: "regex list \<Rightarrow> string \<Rightarrow> error + nat list" where
  "years_of [] text_lower = Inr []"
| "years_of (pattern # patterns) text_lower =
     (case ints_of (findall_group pattern text_lower) of
        Inl e \<Rightarrow> Inl e
      | Inr ns \<Rightarrow>
          (case years_of patterns text_lower of Inl e \<Rightarrow> Inl e | Inr ms \<Rightarrow> Inr (ns @ ms)))"

definition years_found :: "string \<Rightarrow> error + nat list" where
  "years_found text = years_of years_patterns (lower text)"

text \<open>\<^verbatim>\<open>min(years) if years else None\<close>: \<^verbatim>\<open>min\<close> scans the list and keeps the
  smaller value; it is only called on a non-empty list.\<close>

definition extract_years_experience :: "string \<Rightarrow> error + nat option" where
  "extract_years_experience text =
     (case years_found text of
        Inl e \<Rightarrow> Inl e
      | Inr years \<Rightarrow>
          Inr (case years of
                 [] \<Rightarrow> None
               | y # ys \<Rightarrow> Some (fold (\<lambda>x m. if x < m then x else m) ys y)))"

section \<open>Matching and scoring\<close>

record categories =
  programming :: "string list"
  frameworks :: "string list"
  databases :: "string list"
  cloud_devops :: "string list"
  data_ai :: "string list"
  tools :: "string list"
  soft_skills :: "string list"

definition empty_categories :: categories where
  "empty_categories =
     \<lparr>programming = [], frameworks = [], databases = [], cloud_devops = [], data_ai = [],
      tools = [], soft_skills = []\<rparr>"

definition categorize_step :: "string \<Rightarrow> categories \<Rightarrow> categories" where
  "categorize_step skill cats =
     (let skill_lower = lower skill
      in if skill_lower \<in> set (map lower PROGRAMMING_LANGUAGES)
           then cats\<lparr>programming := programming cats @ [skill]\<rparr>
         else if skill_lower \<in> set (map lower FRAMEWORKS_LIBRARIES)
           then cats\<lparr>frameworks := frameworks cats @ [skill]\<rparr>
         else if skill_lower \<in> set (map lower DATABASES)
           then cats\<lparr>databases := databases cats @ [skill]\<rparr>
         else if skill_lower \<in> set (map lower CLOUD_DEVOPS)
           then cats\<lparr>cloud_devops := cloud_devops cats @ [skill]\<rparr>
         else if skill_lower \<in> set (map lower DATA_AI_ML)
           then cats\<lparr>data_ai := data_ai cats @ [skill]\<rparr>
         else if skill_lower \<in> set (map lower TOOLS_PLATFORMS)
           then cats\<lparr>tools := tools cats @ [skill]\<rparr>
         else if skill_lower \<in> set (map lower SOFT_SKILLS)
           then cats\<lparr>soft_skills := soft_skills cats @ [skill]\<rparr>
         else cats)"

definition categorize_skills :: "string list \<Rightarrow> categories" where
  "categorize_skills skills = fold categorize_step skills empty_categories"

text \<open>
  The score is a Python float, a binary64 number, modelled as the rational number it
  is. \<open>float_round\<close> rounds a rational \<open>x\<close> with \<open>0 \<le> x < 2 ^ 1022\<close> to the nearest
  binary64 number, a tie going to the even significand: with \<open>2 ^ e \<le> x < 2 ^ (e + 1)\<close>
  the binary64 numbers around \<open>x\<close> are the multiples of \<open>2 ^ (e - 52)\<close>, and \<open>e\<close> is
  not taken below \<open>- 1022\<close> (the subnormal numbers). The division of two integers and
  the product of two floats are the exact results rounded so.
  \<^verbatim>\<open>round(x, 1)\<close> rounds the float's exact value to one decimal place, a tie going to
  the even digit, and returns the float nearest to that decimal; \<open>round1\<close> is the
  decimal itself, which is what the float prints as and compares like against the whole
  numbers 40, 60 and 80.
\<close>

definition round_half_even :: "rat \<Rightarrow> int" where
  "round_half_even x =
     (let f = \<lfloor>x\<rfloor>; d = x - of_int f
      in if d < 1 / 2 then f else if 1 / 2 < d then f + 1 else if even f then f else f + 1)"

fun binary_exponent :: "nat \<Rightarrow> rat \<Rightarrow> int" where
  "binary_exponent 0 x = 0"
| "binary_exponent (Suc fuel) x =
     (if 2 \<le> x then binary_exponent fuel (x / 2) + 1
      else if x < 1 then binary_exponent fuel (x * 2) - 1
      else 0)"

definition float_round :: "rat \<Rightarrow> rat" where
  "float_round x =
     (if x = 0 then 0
      else let k = 52 - binary_exponent 1022 x
           in if 0 \<le> k then of_int (round_half_even (x * 2 ^ nat k)) / 2 ^ nat k
              else of_int (round_half_even (x / 2 ^ nat (- k))) * 2 ^ nat (- k))"

definition round1 :: "rat \<Rightarrow> rat" where
  "round1 x = of_int (round_half_even (x * 10)) / 10"

definition get_original_case :: "string \<Rightarrow> string" where
  "get_original_case skill_lower =
     (case find (\<lambda>s. lower s = skill_lower) ALL_SKILLS of
        Some s \<Rightarrow> s
      | None \<Rightarrow> skill_lower)"

definition calculate_match ::
  "string list \<Rightarrow> string list \<Rightarrow> rat \<times> string list \<times> string list \<times> string list" where
  "calculate_match resume_skills jd_skills =
     (if jd_skills = [] then (0, [], [], resume_skills)
      else
        let resume_skills_set = remdups (map lower resume_skills);
            jd_skills_set = remdups (map lower jd_skills);
            matched = filter (\<lambda>s. s \<in> set jd_skills_set) resume_skills_set;
            missing = filter (\<lambda>s. s \<notin> set resume_skills_set) jd_skills_set;
            extra = filter (\<lambda>s. s \<notin> set jd_skills_set) resume_skills_set;
            score = float_round
                      (float_round (of_nat (length matched) / of_nat (length jd_skills_set))
                       * 100)
        in (round1 score, map get_original_case matched, map get_original_case missing,
            map get_original_case extra))"

section \<open>The analysis\<close>

record analysis =
  match_score :: rat
  matched_skills :: "string list"
  missing_skills :: "string list"
  extra_skills :: "string list"
  high_priority_missing :: "string list"
  matched_categories :: categories
  missing_categories :: categories
  resume_skill_count :: nat
  jd_skill_count :: nat
  jd_experience_level :: string
  jd_years_required :: "nat option"
  jd_education :: "string list"
  resume_experience_level :: string
  resume_education :: "string list"

text \<open>\<open>analyze_resume\<close> raises what \<open>extract_years_experience\<close> raises on the job
  description; nothing else in it can raise.\<close>

definition analyze_resume :: "string \<Rightarrow> string \<Rightarrow> error + analysis" where
  "analyze_resume resume_text job_description =
     (let resume_skills = extract_skills resume_text ALL_SKILLS;
          jd_skills = extract_skills job_description ALL_SKILLS;
          (score, matched, missing, extra) = calculate_match resume_skills jd_skills;
          jd_skill_freq = get_skill_frequency job_description jd_skills;
          hpm = filter (\<lambda>skill. 2 \<le> (case jd_skill_freq skill of None \<Rightarrow> 0 | Some n \<Rightarrow> n))
                       missing
      in case extract_years_experience job_description of
           Inl e \<Rightarrow> Inl e
         | Inr years \<Rightarrow>
             Inr \<lparr>match_score = score,
                  matched_skills = sort matched,
                  missing_skills = sort missing,
                  extra_skills = sort extra,
                  high_priority_missing = sort hpm,
                  matched_categories = categorize_skills matched,
                  missing_categories = categorize_skills missing,
                  resume_skill_count = length resume_skills,
                  jd_skill_count = length jd_skills,
                  jd_experience_level = detect_experience_level job_description,
                  jd_years_required = years,
                  jd_education = detect_education_requirement job_description,
                  resume_experience_level = detect_experience_level resume_text,
                  resume_education = detect_education_requirement resume_text\<rparr>)"

section \<open>The suggestion engine\<close>

definition ACTION_VERBS :: "(string \<times> string list) list" where
  "ACTION_VERBS =
     [(''leadership'', [''led'', ''managed'', ''directed'', ''supervised'', ''coordinated'',
                       ''oversaw'']),
      (''achievement'', [''achieved'', ''accomplished'', ''exceeded'', ''delivered'',
                        ''completed'']),
      (''creation'', [''created'', ''designed'', ''developed'', ''built'', ''implemented'',
                     ''launched'']),
      (''improvement'', [''improved'', ''enhanced'', ''optimized'', ''streamlined'', ''reduced'',
                        ''increased'']),
      (''technical'', [''engineered'', ''architected'', ''automated'', ''integrated'',
                      ''deployed'', ''configured'']),
      (''analysis'', [''analyzed'', ''evaluated'', ''assessed'', ''researched'', ''investigated'',
                     ''identified''])]"

definition ALL_ACTION_VERBS :: "string list" where
  "ALL_ACTION_VERBS = concat (map snd ACTION_VERBS)"

definition IMPORTANT_SECTIONS :: "string list" where
  "IMPORTANT_SECTIONS =
     [''experience'', ''education'', ''skills'', ''projects'', ''summary'', ''objective'']"

text \<open>\<open>check_action_verbs\<close>: \<open>found\<close> maps each category to the verbs of the category
  that occur in the lowercased text, and \<open>total_found\<close> is the number of verbs found.\<close>

definition check_action_verbs :: "string \<Rightarrow> (string \<times> string list) list \<times> nat" where
  "check_action_verbs resume_text =
     (let text_lower = lower resume_text;
          found = map (\<lambda>(category, verbs).
                         (category, filter (\<lambda>verb. contains verb text_lower) verbs))
                      ACTION_VERBS;
          total_found = sum_list (map (\<lambda>(category, v). length v) found)
      in (found, total_found))"

definition metric_patterns :: "regex list" where
  "metric_patterns =
     [seqs [Rep is_digit 1 None, lit ''%''],
      seqs [lit ''$'', Rep (\<lambda>c. is_digit c \<or> c = CHR '','') 1 None],
      seqs [Rep is_digit 1 None, lit ''+''],
      Rep is_digit 2 None,
      seqs [lit ''#'', Rep is_digit 1 None]]"

definition check_quantifiable_achievements :: "string \<Rightarrow> nat \<times> string list" where
  "check_quantifiable_achievements resume_text =
     (let metrics = concat (map (\<lambda>pattern. findall pattern resume_text) metric_patterns)
      in (length metrics, take 10 metrics))"

definition check_resume_length :: "string \<Rightarrow> nat \<times> nat" where
  "check_resume_length resume_text =
     (let word_count = length (py_split resume_text);
          line_count = Suc (length (filter (\<lambda>c. c = CHR 0x0A) resume_text))
      in (word_count, line_count))"

definition check_sections :: "string \<Rightarrow> string list \<times> string list" where
  "check_sections resume_text =
     (let text_lower = lower resume_text;
          found = filter (\<lambda>s. contains s text_lower) IMPORTANT_SECTIONS;
          missing = filter (\<lambda>s. \<not> contains s text_lower) IMPORTANT_SECTIONS
      in (found, missing))"

record contact_info =
  email :: bool
  phone :: bool
  linkedin :: bool
  github :: bool
  portfolio :: bool

definition email_pattern :: regex where
  "email_pattern =
     seqs [Rep (\<lambda>c. is_word c \<or> c \<in> set ''.-'') 1 None, lit ''@'',
           Rep (\<lambda>c. is_word c \<or> c \<in> set ''.-'') 1 None, lit ''.'', Rep is_word 1 None]"

definition phone_pattern :: regex where
  "phone_pattern =
     seqs [opt (lit ''+''), Rep (\<lambda>c. is_digit c \<or> is_space c \<or> c \<in> set ''-()'') 10 None]"

definition check_contact_info :: "string \<Rightarrow> contact_info" where
  "check_contact_info resume_text =
     \<lparr>email = re_search email_pattern resume_text,
      phone = re_search phone_pattern resume_text,
      linkedin = contains ''linkedin'' (lower resume_text),
      github = contains ''github'' (lower resume_text),
      portfolio = list_ex (\<lambda>word. contains word (lower resume_text))
                    [''portfolio'', ''website'', ''blog'']\<rparr>"

text \<open>\<open>check_keyword_stuffing\<close>: the pattern is
  \<^verbatim>\<open>verb.{0,50}skill|skill.{0,50}verb\<close>, where \<^verbatim>\<open>.\<close> is any character but a newline.\<close>

definition any_char :: "char \<Rightarrow> bool" where
  "any_char c = (c \<noteq> CHR 0x0A)"

definition context_pattern :: "string \<Rightarrow> string \<Rightarrow> regex" where
  "context_pattern verb skill_lower =
     Alt (seqs [lit verb, Rep any_char 0 (Some 50), lit skill_lower])
         (seqs [lit skill_lower, Rep any_char 0 (Some 50), lit verb])"

definition check_keyword_stuffing :: "string \<Rightarrow> string list \<Rightarrow> nat \<times> nat" where
  "check_keyword_stuffing resume_text skills =
     (let text_lower = lower resume_text;
          contextual_skills =
            length (filter (\<lambda>skill. list_ex (\<lambda>verb. re_search (context_pattern verb (lower skill))
                                                          text_lower) ALL_ACTION_VERBS)
                           skills)
      in (contextual_skills, length skills))"

text \<open>
  Formatting. \<open>str_score\<close> is \<^verbatim>\<open>str\<close> on the float of a score
  \<open>calculate_match\<close> returns: not negative and with one decimal place.
  \<open>title\<close> is \<^verbatim>\<open>str.title()\<close>: the first letter of every run of letters in upper
  case and the others in lower case. The program applies it only to the names of
  sections joined by commas, which are ASCII; \<open>upper_char\<close> leaves the three letters
  whose upper case is not a single code point below 256 as they are.
\<close>

definition str_score :: "rat \<Rightarrow> string" where
  "str_score x = str_nat (nat \<lfloor>x\<rfloor>) @ ''.'' @ str_nat (nat (\<lfloor>x * 10\<rfloor> mod 10))"

fun title_from :: "bool \<Rightarrow> string \<Rightarrow> string" where
  "title_from prev [] = []"
| "title_from prev (c # cs) =
     (if is_alpha c then (if prev then lower_char c else upper_char c) # title_from True cs
      else c # title_from False cs)"

definition title :: "string \<Rightarrow> string" where
  "title s = title_from False s"

record suggestion =
  type :: string
  category :: string
  message :: string

text \<open>\<open>generate_suggestions\<close> appends to one list in twelve numbered steps. Each step
  is a function returning the items it appends.\<close>

definition score_feedback :: "rat \<Rightarrow> suggestion list" where
  \<open>score_feedback score =
     (if 80 \<le> score then
        [\<lparr>type = ''success'', category = ''Match Score'',
          message = ''Excellent match ('' @ str_score score @ ''%)! Your skills align very well with this job. Focus on tailoring your experience descriptions to highlight relevant achievements.''\<rparr>]
      else if 60 \<le> score then
        [\<lparr>type = ''info'', category = ''Match Score'',
          message = ''Good match ('' @ str_score score @ ''%)! You have a solid foundation. Adding a few more relevant skills could push your application to the top.''\<rparr>]
      else if 40 \<le> score then
        [\<lparr>type = ''warning'', category = ''Match Score'',
          message = ''Moderate match ('' @ str_score score @ ''%). Consider emphasizing transferable skills and any relevant projects or coursework.''\<rparr>]
      else
        [\<lparr>type = ''danger'', category = ''Match Score'',
          message = ''Low match ('' @ str_score score @ ''%). This role may require skills you haven't highlighted. Consider if you have relevant experience that isn't reflected in your resume.''\<rparr>])\<close>

definition high_priority_feedback :: "string list \<Rightarrow> suggestion list" where
  "high_priority_feedback hpm =
     (if hpm \<noteq> [] then
        [\<lparr>type = ''danger'', category = ''Critical Skills Gap'',
          message = ''These skills are mentioned multiple times in the job description and are likely essential: '' @ join '', '' (take 5 hpm)\<rparr>]
      else [])"

definition category_feedback :: "categories \<Rightarrow> suggestion list" where
  "category_feedback missing_cats =
     (if programming missing_cats \<noteq> [] then
        [\<lparr>type = ''warning'', category = ''Programming Languages'',
          message = ''Missing programming languages: '' @ join '', '' (take 4 (programming missing_cats)) @ ''. If you have experience with similar languages, highlight your ability to learn quickly.''\<rparr>]
      else []) @
     (if frameworks missing_cats \<noteq> [] then
        [\<lparr>type = ''warning'', category = ''Frameworks'',
          message = ''Missing frameworks/libraries: '' @ join '', '' (take 4 (frameworks missing_cats)) @ ''. Consider adding relevant projects to demonstrate these skills.''\<rparr>]
      else []) @
     (if cloud_devops missing_cats \<noteq> [] then
        [\<lparr>type = ''info'', category = ''Cloud/DevOps'',
          message = ''Missing cloud/DevOps skills: '' @ join '', '' (take 4 (cloud_devops missing_cats)) @ ''. Free tier accounts on AWS/Azure can help you gain hands-on experience.''\<rparr>]
      else [])"

text \<open>\<^verbatim>\<open>if jd_years_required:\<close> is false for \<^verbatim>\<open>None\<close> and for \<^verbatim>\<open>0\<close>.\<close>

definition experience_feedback :: "string \<Rightarrow> nat option \<Rightarrow> suggestion list" where
  "experience_feedback level years =
     (if level \<noteq> ''not specified'' then
        [\<lparr>type = ''info'', category = ''Experience Level'',
          message = ''This appears to be a '' @ level @ ''-level position. '' @
            (if level = ''senior'' then ''Highlight your growth and quick learning ability.''
             else ''Your enthusiasm and recent projects can compensate for less experience.'')\<rparr>]
      else []) @
     (case years of
        None \<Rightarrow> []
      | Some n \<Rightarrow>
          if n \<noteq> 0 then
            [\<lparr>type = ''info'', category = ''Years Required'',
              message = ''The job requires approximately '' @ str_nat n @ ''+ years of experience. Include all relevant experience including internships, freelance work, and significant personal projects.''\<rparr>]
          else [])"

definition action_verb_warning :: suggestion where
  "action_verb_warning =
     \<lparr>type = ''warning'', category = ''Action Verbs'',
      message = ''Your resume lacks strong action verbs. Start bullet points with words like: Led, Developed, Implemented, Achieved, Optimized, Delivered.''\<rparr>"

definition action_verb_info :: "string list \<Rightarrow> suggestion" where
  "action_verb_info weak_categories =
     \<lparr>type = ''info'', category = ''Action Verbs'',
      message = ''Consider adding more '' @ join '', '' (take 2 weak_categories) @ '' action verbs to showcase different aspects of your experience.''\<rparr>"

definition action_verb_feedback :: "string \<Rightarrow> suggestion list" where
  "action_verb_feedback resume_text =
     (let (verb_categories, total_verbs) = check_action_verbs resume_text
      in if total_verbs < 5 then [action_verb_warning]
         else if total_verbs < 10 then
           (let weak_categories = map fst (filter (\<lambda>(cat, verbs). verbs = []) verb_categories)
            in if weak_categories \<noteq> [] then [action_verb_info weak_categories] else [])
         else [])"

definition metrics_feedback :: "string \<Rightarrow> suggestion list" where
  \<open>metrics_feedback resume_text =
     (let (metric_count, metrics) = check_quantifiable_achievements resume_text
      in if metric_count = 0 then
           [\<lparr>type = ''warning'', category = ''Quantifiable Results'',
             message = ''No metrics found! Add numbers to demonstrate impact: "Increased sales by 25%", "Reduced load time by 40%", "Managed team of 5", "Processed 10K+ records daily".''\<rparr>]
         else if metric_count < 4 then
           [\<lparr>type = ''info'', category = ''Quantifiable Results'',
             message = ''Found '' @ str_nat metric_count @ '' metrics. Try to add more quantifiable achievements to each role - aim for at least 2-3 per position.''\<rparr>]
         else [])\<close>

definition length_feedback :: "string \<Rightarrow> suggestion list" where
  "length_feedback resume_text =
     (let (word_count, line_count) = check_resume_length resume_text
      in if word_count < 200 then
           [\<lparr>type = ''warning'', category = ''Content Length'',
             message = ''Your resume seems too short ('' @ str_nat word_count @ '' words). Add more details about your responsibilities, achievements, and projects.''\<rparr>]
         else if 1200 < word_count then
           [\<lparr>type = ''info'', category = ''Content Length'',
             message = ''Your resume is quite long ('' @ str_nat word_count @ '' words). For most roles, keep it to 1-2 pages. Prioritize the most relevant information.''\<rparr>]
         else [])"

definition sections_feedback :: "string \<Rightarrow> suggestion list" where
  "sections_feedback resume_text =
     (let (found_sections, missing_sections) = check_sections resume_text;
          critical_missing =
            filter (\<lambda>s. s \<in> set [''experience'', ''education'', ''skills'']) missing_sections
      in if critical_missing \<noteq> [] then
           [\<lparr>type = ''danger'', category = ''Resume Structure'',
             message = ''Missing critical sections: '' @ title (join '', '' critical_missing) @ ''. These are essential for most job applications.''\<rparr>]
         else [])"

definition contact_feedback :: "string \<Rightarrow> suggestion list" where
  "contact_feedback resume_text =
     (let info = check_contact_info resume_text
      in (if \<not> email info then
            [\<lparr>type = ''danger'', category = ''Contact Info'',
              message = ''No email address detected! Make sure your contact information is clearly visible at the top of your resume.''\<rparr>]
          else []) @
         (if \<not> linkedin info \<and> \<not> github info then
            [\<lparr>type = ''info'', category = ''Online Presence'',
              message = ''Consider adding LinkedIn or GitHub profiles to showcase your professional network and code samples.''\<rparr>]
          else []))"

definition context_feedback :: "string \<Rightarrow> string list \<Rightarrow> suggestion list" where
  "context_feedback resume_text matched =
     (if matched \<noteq> [] then
        (let (contextual, total) = check_keyword_stuffing resume_text matched
         in if 0 < total \<and> (of_nat contextual / of_nat total :: rat) < 3 / 10 then
              [\<lparr>type = ''info'', category = ''Skills Integration'',
                message = ''Your skills appear to be listed but not demonstrated in context. Show how you used each skill in your experience descriptions.''\<rparr>]
            else [])
      else [])"

definition ats_tip :: suggestion where
  "ats_tip =
     \<lparr>type = ''info'', category = ''ATS Optimization'',
      message = ''For ATS compatibility: Use standard section headings, avoid tables/graphics, save as PDF, and include exact keywords from the job description.''\<rparr>"

definition education_tip :: suggestion where
  "education_tip =
     \<lparr>type = ''info'', category = ''Education'',
      message = ''This position may prefer advanced degrees. Emphasize relevant coursework, certifications, and hands-on project experience.''\<rparr>"

definition education_feedback :: "string list \<Rightarrow> string list \<Rightarrow> suggestion list" where
  "education_feedback jd_edu resume_edu =
     (if ''masters'' \<in> set jd_edu \<or> ''phd'' \<in> set jd_edu then
        (if ''masters'' \<in> set jd_edu \<and> ''masters'' \<notin> set resume_edu \<and> ''phd'' \<notin> set resume_edu
         then [education_tip] else [])
      else [])"

definition generate_suggestions :: "string \<Rightarrow> analysis \<Rightarrow> suggestion list" where
  "generate_suggestions resume_text analysis_results =
     score_feedback (match_score analysis_results) @
     high_priority_feedback (high_priority_missing analysis_results) @
     category_feedback (missing_categories analysis_results) @
     experience_feedback (jd_experience_level analysis_results)
       (jd_years_required analysis_results) @
     action_verb_feedback resume_text @
     metrics_feedback resume_text @
     length_feedback resume_text @
     sections_feedback resume_text @
     contact_feedback resume_text @
     context_feedback resume_text (matched_skills analysis_results) @
     [ats_tip] @
     education_feedback (jd_education analysis_results) (resume_education analysis_results)"


section \<open>The specification's reading of the detectors\<close>

text \<open>
  The experience level as the specification words it: the keywords of \<^verbatim>\<open>senior\<close> are
  looked for first, then those of \<^verbatim>\<open>mid\<close>, then those of \<^verbatim>\<open>entry\<close>. It is compared
  below with \<open>detect_experience_level\<close>, which is the source's loop.
\<close>

definition level_keywords :: "string \<Rightarrow> string list" where
  "level_keywords level =
     (case map_of EXPERIENCE_LEVELS level of None \<Rightarrow> [] | Some keywords \<Rightarrow> keywords)"

definition mentions_level :: "string \<Rightarrow> string \<Rightarrow> bool" where
  "mentions_level level text =
     list_ex (\<lambda>keyword. contains keyword (lower text)) (level_keywords level)"

definition experience_level_by_priority :: "string \<Rightarrow> string" where
  "experience_level_by_priority text =
     (if mentions_level ''senior'' text then ''senior''
      else if mentions_level ''mid'' text then ''mid''
      else if mentions_level ''entry'' text then ''entry''
      else ''not specified'')"

text \<open>
  The action verbs, counted in two ways: \<open>total_occurrences\<close> is the number of places
  of the lowercased text at which a verb of the list starts (the specification's
  count), \<open>verbs_present\<close> are the verbs of the list that occur in it at all.
  \<open>empty_verb_categories\<close> are the categories none of whose verbs occurs.
\<close>

fun occurrences :: "string \<Rightarrow> string \<Rightarrow> nat" where
  "occurrences kw [] = 0"
| "occurrences kw (c # cs) = (if starts_with kw (c # cs) then 1 else 0) + occurrences kw cs"

definition total_occurrences :: "string \<Rightarrow> nat" where
  "total_occurrences resume_text =
     sum_list (map (\<lambda>verb. occurrences verb (lower resume_text)) ALL_ACTION_VERBS)"

definition verbs_present :: "string \<Rightarrow> string list" where
  "verbs_present resume_text =
     filter (\<lambda>verb. contains verb (lower resume_text)) ALL_ACTION_VERBS"

definition empty_verb_categories :: "string \<Rightarrow> string list" where
  "empty_verb_categories resume_text =
     map fst (filter (\<lambda>(cat, verbs). \<not> list_ex (\<lambda>verb. contains verb (lower resume_text)) verbs)
                     ACTION_VERBS)"

text \<open>
  The four score bands of the specification, and what makes an item the score-band
  item: its category.
\<close>

definition score_band :: "rat \<Rightarrow> string" where
  "score_band score =
     (if 80 \<le> score then ''success''
      else if 60 \<le> score then ''info''
      else if 40 \<le> score then ''warning''
      else ''danger'')"

definition is_score_item :: "suggestion \<Rightarrow> bool" where
  "is_score_item item = (category item = ''Match Score'')"

text \<open>
  All the digit runs the three patterns of \<open>extract_years_experience\<close> capture in a
  text, pattern by pattern, and which of them \<^verbatim>\<open>int\<close> refuses.
\<close>

definition year_captures :: "string \<Rightarrow> string list" where
  "year_captures text =
     concat (map (\<lambda>pattern. filter (\<lambda>m. m \<noteq> []) (findall_group pattern (lower text)))
                 years_patterns)"

definition too_long :: "string \<Rightarrow> bool" where
  "too_long m = (max_str_digits < length m)"

section \<open>Properties of matching and scoring\<close>

lemma lower_char_idem: "lower_char (lower_char c) = lower_char c"
  unfolding lower_char_def Let_def
  by (auto simp: of_char_of)

lemma lower_idem: "lower (lower s) = lower s"
  by (simp add: lower_def lower_char_idem)

lemma lower_get_original_case: "lower (get_original_case (lower x)) = lower x"
proof (cases "find (\<lambda>s. lower s = lower x) ALL_SKILLS")
  case None
  then show ?thesis by (simp add: get_original_case_def lower_idem)
next
  case (Some t)
  then have "lower t = lower x" by (auto simp: find_Some_iff)
  with Some show ?thesis by (simp add: get_original_case_def)
qed

lemma map_lower_original:
  "set xs \<subseteq> range lower \<Longrightarrow> map lower (map get_original_case xs) = xs"
  by (induction xs) (auto simp: lower_get_original_case)

lemma calculate_match_nonempty:
  assumes "js \<noteq> []"
  shows "calculate_match rs js =
    (round1 (float_round (float_round
       (of_nat (length (filter (\<lambda>s. s \<in> set (map lower js)) (remdups (map lower rs))))
        / of_nat (length (remdups (map lower js)))) * 100)),
     map get_original_case (filter (\<lambda>s. s \<in> set (map lower js)) (remdups (map lower rs))),
     map get_original_case (filter (\<lambda>s. s \<notin> set (map lower rs)) (remdups (map lower js))),
     map get_original_case (filter (\<lambda>s. s \<notin> set (map lower js)) (remdups (map lower rs))))"
  using assms by (simp add: calculate_match_def Let_def)

text \<open>
  C1. The lists \<open>calculate_match\<close> returns partition its inputs, compared after
  lowercasing: matched and missing together are the skills of the job description and
  have none in common, matched and extra together are the skills of the resume and have
  none in common.
\<close>

theorem calculate_match_partition:
  assumes "calculate_match rs js = (score, matched, missing, extra)"
  shows "set (map lower matched) \<union> set (map lower missing) = set (map lower js)
       \<and> set (map lower matched) \<inter> set (map lower missing) = {}
       \<and> set (map lower matched) \<union> set (map lower extra) = set (map lower rs)
       \<and> set (map lower matched) \<inter> set (map lower extra) = {}"
proof (cases "js = []")
  case True
  with assms show ?thesis by (auto simp: calculate_match_def)
next
  case False
  let ?R = "remdups (map lower rs)" and ?J = "remdups (map lower js)"
  have m: "map lower matched = filter (\<lambda>s. s \<in> set (map lower js)) ?R"
    and mi: "map lower missing = filter (\<lambda>s. s \<notin> set (map lower rs)) ?J"
    and e: "map lower extra = filter (\<lambda>s. s \<notin> set (map lower js)) ?R"
    using assms calculate_match_nonempty [OF False, of rs]
    by (auto intro!: map_lower_original)
  show ?thesis unfolding m mi e by auto
qed


theorem calculate_match_partition_witness:
  "calculate_match [''Python'', ''sql''] [''python'', ''Java''] =
     (50, [''python''], [''java''], [''sql''])
   \<and> set (map lower [''python'']) \<union> set (map lower [''java'']) = set (map lower [''python'', ''Java''])
   \<and> set (map lower [''python'']) \<inter> set (map lower [''java'']) = {}
   \<and> set (map lower [''python'']) \<union> set (map lower [''sql'']) = set (map lower [''Python'', ''sql''])
   \<and> set (map lower [''python'']) \<inter> set (map lower [''sql'']) = {}"
proof -
  have h: "calculate_match [''Python'', ''sql''] [''python'', ''Java''] =
     (50, [''python''], [''java''], [''sql''])"
    by code_simp
  from calculate_match_partition [OF h] h show ?thesis by simp
qed

lemma round_half_even_nonneg:
  assumes "0 \<le> x"
  shows "0 \<le> round_half_even x"
proof -
  have "0 \<le> \<lfloor>x\<rfloor>" using assms by simp
  then show ?thesis by (auto simp: round_half_even_def Let_def)
qed

lemma round_half_even_le:
  assumes "x \<le> of_int n"
  shows "round_half_even x \<le> n"
proof (cases "x = of_int n")
  case True
  then show ?thesis by (simp add: round_half_even_def)
next
  case False
  with assms have "x < of_int n" by simp
  then have "\<lfloor>x\<rfloor> < n" by (simp add: floor_less_iff)
  then show ?thesis by (auto simp: round_half_even_def Let_def)
qed

lemma round1_bounds:
  assumes "0 \<le> x" and "x \<le> 100"
  shows "0 \<le> round1 x \<and> round1 x \<le> 100"
proof -
  have "0 \<le> x * 10" using assms(1) by simp
  then have a: "0 \<le> round_half_even (x * 10)" by (rule round_half_even_nonneg)
  have "x * 10 \<le> of_int 1000" using assms(2) by simp
  then have "round_half_even (x * 10) \<le> 1000" by (rule round_half_even_le)
  then have "(of_int (round_half_even (x * 10)) :: rat) \<le> of_int 1000"
    by (simp only: of_int_le_iff)
  with a show ?thesis by (simp add: round1_def)
qed

lemma binary_exponent_le: "x < 2 ^ Suc j \<Longrightarrow> binary_exponent n x \<le> int j"
proof (induction n arbitrary: x j)
  case 0
  then show ?case by simp
next
  case (Suc n)
  show ?case
  proof (cases "2 \<le> x")
    case True
    with Suc.prems obtain i where j: "j = Suc i" by (cases j) auto
    from Suc.prems j have "x / 2 < 2 ^ Suc i" by simp
    from Suc.IH [OF this] True j show ?thesis by simp
  next
    case False
    show ?thesis
    proof (cases "x < 1")
      case True
      then have "x * 2 < 2 ^ Suc 0" by simp
      from Suc.IH [OF this] True False show ?thesis by simp
    next
      case False
      with \<open>\<not> 2 \<le> x\<close> show ?thesis by simp
    qed
  qed
qed

lemma float_round_bounds:
  assumes "0 \<le> x" and "x \<le> of_nat b" and "b \<le> 100"
  shows "0 \<le> float_round x \<and> float_round x \<le> of_nat b"
proof (cases "x = 0")
  case True
  then show ?thesis by (simp add: float_round_def)
next
  case False
  define k where "k = nat (52 - binary_exponent 1022 x)"
  have "(of_nat b :: rat) \<le> 100" using assms(3) by simp
  with assms(2) have "x \<le> 100" by simp
  then have "x < 2 ^ Suc 6" by simp
  then have "binary_exponent 1022 x \<le> int 6" by (rule binary_exponent_le)
  then have k: "0 \<le> 52 - binary_exponent 1022 x" by simp
  have f: "float_round x = of_int (round_half_even (x * 2 ^ k)) / 2 ^ k"
    using False k by (simp add: float_round_def Let_def k_def)
  have "0 \<le> x * 2 ^ k" using assms(1) by simp
  then have lo: "0 \<le> round_half_even (x * 2 ^ k)" by (rule round_half_even_nonneg)
  have "x * 2 ^ k \<le> of_nat b * 2 ^ k" using assms(2) by simp
  also have "\<dots> = of_int (int b * 2 ^ k)" by simp
  finally have "round_half_even (x * 2 ^ k) \<le> int b * 2 ^ k" by (rule round_half_even_le)
  then have "(of_int (round_half_even (x * 2 ^ k)) :: rat) \<le> of_int (int b * 2 ^ k)"
    by (simp only: of_int_le_iff)
  then have hi: "(of_int (round_half_even (x * 2 ^ k)) :: rat) / 2 ^ k \<le> of_nat b"
    by (simp add: divide_le_eq)
  from lo hi show ?thesis by (simp add: f)
qed

lemma matched_length_le:
  "length (filter (\<lambda>s. s \<in> set (map lower js)) (remdups (map lower rs)))
     \<le> length (remdups (map lower js))"
proof -
  let ?m = "filter (\<lambda>s. s \<in> set (map lower js)) (remdups (map lower rs))"
  have "distinct ?m" by simp
  then have "length ?m = card (set ?m)" by (rule distinct_card [symmetric])
  also have "\<dots> \<le> card (set (map lower js))" by (rule card_mono) auto
  also have "\<dots> = length (remdups (map lower js))" by (simp add: length_remdups_card_conv)
  finally show ?thesis .
qed

text \<open>
  C2. With an empty list of job-description skills \<open>calculate_match\<close> returns score 0,
  no matched and no missing skill, and the resume's list as extra; with a non-empty list
  the score lies between 0 and 100.
\<close>

theorem calculate_match_score:
  "(js = [] \<longrightarrow> calculate_match rs js = (0, [], [], rs))
   \<and> (js \<noteq> [] \<longrightarrow> 0 \<le> fst (calculate_match rs js) \<and> fst (calculate_match rs js) \<le> 100)"
proof (rule conjI; rule impI)
  assume "js = []"
  then show "calculate_match rs js = (0, [], [], rs)" by (simp add: calculate_match_def)
next
  assume ne: "js \<noteq> []"
  let ?m = "length (filter (\<lambda>s. s \<in> set (map lower js)) (remdups (map lower rs)))"
  let ?n = "length (remdups (map lower js))"
  define q :: rat where "q = of_nat ?m / of_nat ?n"
  have n0: "0 < ?n" using ne by (cases js) (auto simp: length_remdups_card_conv card_gt_0_iff)
  have le: "?m \<le> ?n" by (rule matched_length_le)
  have q0: "0 \<le> q" unfolding q_def by simp
  have q1: "q \<le> of_nat 1" unfolding q_def using le n0 by (simp add: divide_le_eq)
  from float_round_bounds [OF q0 q1]
  have fq: "0 \<le> float_round q" "float_round q \<le> 1" by simp_all
  have p0: "0 \<le> float_round q * 100" using fq(1) by simp
  have p1: "float_round q * 100 \<le> of_nat 100" using fq(2) by simp
  from float_round_bounds [OF p0 p1]
  have r0: "0 \<le> float_round (float_round q * 100)"
    and r1: "float_round (float_round q * 100) \<le> 100" by simp_all
  have eq: "fst (calculate_match rs js) = round1 (float_round (float_round q * 100))"
    unfolding q_def by (subst calculate_match_nonempty [OF ne]) (simp only: fst_conv)
  from round1_bounds [OF r0 r1] eq
  show "0 \<le> fst (calculate_match rs js) \<and> fst (calculate_match rs js) \<le> 100" by simp
qed

theorem calculate_match_score_witness:
  "calculate_match [''python''] [] = (0, [], [], [''python''])
   \<and> [''python'', ''java'', ''sql''] \<noteq> []
   \<and> 0 \<le> fst (calculate_match [''python'', ''java''] [''python'', ''java'', ''sql''])
   \<and> fst (calculate_match [''python'', ''java''] [''python'', ''java'', ''sql'']) \<le> 100"
  using calculate_match_score [of "[]" "[''python'']"]
    calculate_match_score [of "[''python'', ''java'', ''sql'']" "[''python'', ''java'']"]
  by simp

lemma get_original_case_fixed:
  "get_original_case (lower (get_original_case (lower x))) = get_original_case (lower x)"
  by (simp add: lower_get_original_case)

lemma get_original_case_vocabulary:
  assumes "x \<in> set ALL_SKILLS"
  shows "get_original_case (lower x) \<in> set ALL_SKILLS"
proof (cases "find (\<lambda>s. lower s = lower x) ALL_SKILLS")
  case None
  with assms show ?thesis by (auto simp: find_None_iff)
next
  case (Some t)
  then have "t \<in> set ALL_SKILLS" by (auto simp: find_Some_iff)
  with Some show ?thesis by (simp add: get_original_case_def)
qed

lemma extract_skills_vocabulary: "set (extract_skills text skill_list) \<subseteq> set skill_list"
  by (auto simp: extract_skills_def Let_def)

lemma calculate_match_canonical:
  assumes "js \<noteq> []" and "calculate_match rs js = (score, matched, missing, extra)"
  shows "list_all (\<lambda>x. get_original_case (lower x) = x) (matched @ missing @ extra)"
  using assms(2) unfolding calculate_match_nonempty [OF assms(1)]
  by (auto simp: list_all_iff get_original_case_fixed)

lemma calculate_match_vocabulary:
  assumes "set rs \<subseteq> set ALL_SKILLS" and "set js \<subseteq> set ALL_SKILLS"
    and "calculate_match rs js = (score, matched, missing, extra)"
  shows "set matched \<subseteq> set ALL_SKILLS \<and> set missing \<subseteq> set ALL_SKILLS
       \<and> set extra \<subseteq> set ALL_SKILLS"
proof (cases "js = []")
  case True
  with assms show ?thesis by (auto simp: calculate_match_def)
next
  case False
  have vr: "\<And>x. x \<in> set rs \<Longrightarrow> get_original_case (lower x) \<in> set ALL_SKILLS"
    and vj: "\<And>x. x \<in> set js \<Longrightarrow> get_original_case (lower x) \<in> set ALL_SKILLS"
    using assms(1,2) get_original_case_vocabulary by auto
  from assms(3) show ?thesis unfolding calculate_match_nonempty [OF False]
    by (auto simp: vr vj)
qed

lemma analyze_resume_raises:
  assumes "analyze_resume r j = Inl e"
  shows "extract_years_experience j = Inl e"
  using assms
  by (cases "extract_years_experience j")
     (simp_all add: analyze_resume_def Let_def split: prod.splits)

lemma analyze_resume_lists:
  assumes "calculate_match (extract_skills r ALL_SKILLS) (extract_skills j ALL_SKILLS)
             = (score, matched, missing, extra)"
    and "analyze_resume r j = Inr a"
  shows "matched_skills a = sort matched"
    and "missing_skills a = sort missing"
    and "extra_skills a = sort extra"
  using assms
  by (cases "extract_years_experience j"; auto simp: analyze_resume_def Let_def)+

text \<open>
  C3, as the code has it. \<open>calculate_match\<close> restores the vocabulary's casing when the
  list of job-description skills is not empty (each returned skill is the vocabulary's
  spelling of its own lowercase form), and does not sort. The sorting is done by
  \<open>analyze_resume\<close>: whenever it returns a result, the matched, missing and extra lists
  of the result are sorted in the order of the code points and consist of vocabulary
  entries; it returns no result only when \<open>extract_years_experience\<close> raises.
\<close>

theorem analysis_lists_sorted_canonical:
  "(js \<noteq> [] \<longrightarrow>
      (case calculate_match rs js of (score, matched, missing, extra) \<Rightarrow>
         list_all (\<lambda>x. get_original_case (lower x) = x) (matched @ missing @ extra)))
   \<and> (case analyze_resume r j of
         Inl e \<Rightarrow> extract_years_experience j = Inl e
       | Inr a \<Rightarrow>
           sorted (matched_skills a) \<and> sorted (missing_skills a) \<and> sorted (extra_skills a)
           \<and> set (matched_skills a) \<subseteq> set ALL_SKILLS
           \<and> set (missing_skills a) \<subseteq> set ALL_SKILLS
           \<and> set (extra_skills a) \<subseteq> set ALL_SKILLS)"
proof -
  have a: "js \<noteq> [] \<longrightarrow>
      (case calculate_match rs js of (score, matched, missing, extra) \<Rightarrow>
         list_all (\<lambda>x. get_original_case (lower x) = x) (matched @ missing @ extra))"
  proof
    assume ne: "js \<noteq> []"
    obtain sc m mi e where c: "calculate_match rs js = (sc, m, mi, e)"
      by (cases "calculate_match rs js") auto
    from calculate_match_canonical [OF ne c] c show
      "case calculate_match rs js of (score, matched, missing, extra) \<Rightarrow>
         list_all (\<lambda>x. get_original_case (lower x) = x) (matched @ missing @ extra)"
      by simp
  qed
  obtain sc m mi e where
    c: "calculate_match (extract_skills r ALL_SKILLS) (extract_skills j ALL_SKILLS) = (sc, m, mi, e)"
    by (cases "calculate_match (extract_skills r ALL_SKILLS) (extract_skills j ALL_SKILLS)") auto
  have v: "set m \<subseteq> set ALL_SKILLS \<and> set mi \<subseteq> set ALL_SKILLS \<and> set e \<subseteq> set ALL_SKILLS"
    by (rule calculate_match_vocabulary [OF extract_skills_vocabulary extract_skills_vocabulary c])
  have b: "case analyze_resume r j of
         Inl e \<Rightarrow> extract_years_experience j = Inl e
       | Inr a \<Rightarrow>
           sorted (matched_skills a) \<and> sorted (missing_skills a) \<and> sorted (extra_skills a)
           \<and> set (matched_skills a) \<subseteq> set ALL_SKILLS
           \<and> set (missing_skills a) \<subseteq> set ALL_SKILLS
           \<and> set (extra_skills a) \<subseteq> set ALL_SKILLS"
  proof (cases "analyze_resume r j")
    case (Inl err)
    then show ?thesis by (simp add: analyze_resume_raises)
  next
    case (Inr res)
    note l = analyze_resume_lists [OF c Inr]
    from v show ?thesis by (simp add: Inr l)
  qed
  from a b show ?thesis by (rule conjI)
qed

theorem analysis_lists_sorted_canonical_witness:
  "[''Python''] \<noteq> []
   \<and> (case calculate_match [''SQL'', ''python''] [''Python''] of (score, matched, missing, extra) \<Rightarrow>
         list_all (\<lambda>x. get_original_case (lower x) = x) (matched @ missing @ extra))
   \<and> calculate_match [''SQL'', ''python''] [''Python''] = (100, [''python''], [], [''sql''])
   \<and> extract_years_experience ''python and java'' = Inr None
   \<and> (\<exists>a. analyze_resume ''sql, python'' ''python and java'' = Inr a
          \<and> sorted (matched_skills a) \<and> sorted (missing_skills a) \<and> sorted (extra_skills a)
          \<and> set (matched_skills a) \<subseteq> set ALL_SKILLS
          \<and> set (missing_skills a) \<subseteq> set ALL_SKILLS
          \<and> set (extra_skills a) \<subseteq> set ALL_SKILLS)"
proof -
  have h: "[''Python''] \<noteq> []" by simp
  have c: "calculate_match [''SQL'', ''python''] [''Python''] = (100, [''python''], [], [''sql''])"
    by code_simp
  have y: "extract_years_experience ''python and java'' = Inr None"
    by code_simp
  note t = analysis_lists_sorted_canonical
         [where js = "[''Python'']" and rs = "[''SQL'', ''python'']" and r = "''sql, python''"
            and j = "''python and java''"]
  have "\<exists>a. analyze_resume ''sql, python'' ''python and java'' = Inr a
          \<and> sorted (matched_skills a) \<and> sorted (missing_skills a) \<and> sorted (extra_skills a)
          \<and> set (matched_skills a) \<subseteq> set ALL_SKILLS
          \<and> set (missing_skills a) \<subseteq> set ALL_SKILLS
          \<and> set (extra_skills a) \<subseteq> set ALL_SKILLS"
  proof (cases "analyze_resume ''sql, python'' ''python and java''")
    case (Inl err)
    with t y show ?thesis by simp
  next
    case (Inr res)
    with t show ?thesis by simp
  qed
  with t h c y show ?thesis by simp
qed

text \<open>
  C3 as stated fails on \<open>calculate_match\<close> itself: with an empty list of job-description
  skills the resume's list is returned as it was given, neither sorted nor in the
  vocabulary's casing.
\<close>

theorem calculate_match_unsorted:
  "calculate_match [''python'', ''java''] [] = (0, [], [], [''python'', ''java''])
   \<and> \<not> sorted (snd (snd (snd (calculate_match [''python'', ''java''] []))))
   \<and> calculate_match [''PYTHON''] [] = (0, [], [], [''PYTHON''])
   \<and> get_original_case (lower ''PYTHON'') = ''python''"
  by code_simp

section \<open>Properties of the detectors\<close>

lemma ints_of_eq:
  "ints_of ms =
     (if list_ex too_long (filter (\<lambda>m. m \<noteq> []) ms) then Inl ValueError
      else Inr (map digits_value (filter (\<lambda>m. m \<noteq> []) ms)))"
  by (induction ms) (auto simp: int_of_digits_def too_long_def)

lemma years_of_eq:
  "years_of ps t =
     (if list_ex too_long (concat (map (\<lambda>p. filter (\<lambda>m. m \<noteq> []) (findall_group p t)) ps))
      then Inl ValueError
      else Inr (map digits_value
                  (concat (map (\<lambda>p. filter (\<lambda>m. m \<noteq> []) (findall_group p t)) ps))))"
  by (induction ps) (auto simp: ints_of_eq)

lemma years_found_eq:
  "years_found text =
     (if list_ex too_long (year_captures text) then Inl ValueError
      else Inr (map digits_value (year_captures text)))"
  by (simp add: years_found_def year_captures_def years_of_eq)

lemma py_min_fold: "fold (\<lambda>x m. if x < m then x else m) ys (y :: nat) = Min (set (y # ys))"
proof -
  have "(\<lambda>x m. if x < m then x else m) = (min :: nat \<Rightarrow> nat \<Rightarrow> nat)"
    by (auto simp: fun_eq_iff min_def)
  then show ?thesis by (simp only: Min.set_eq_fold)
qed

lemma extract_years_experience_eq:
  "extract_years_experience text =
     (if list_ex too_long (year_captures text) then Inl ValueError
      else if year_captures text = [] then Inr None
      else Inr (Some (Min (set (map digits_value (year_captures text))))))"
proof (cases "year_captures text")
  case Nil
  then show ?thesis by (simp add: extract_years_experience_def years_found_eq)
next
  case (Cons c cs)
  then show ?thesis
    by (simp add: extract_years_experience_def years_found_eq py_min_fold)
qed

text \<open>
  C4, as the code has it. When one of the digit runs the three patterns capture has
  more than 4300 digits, \<^verbatim>\<open>int\<close> raises \<^verbatim>\<open>ValueError\<close> and
  \<open>extract_years_experience\<close> returns nothing. Otherwise it returns absent when no
  pattern captures an integer, and else the least of all the integers captured by the
  three patterns; on a text with the range 3-5 years and the mention 7+ years the
  captures are 5, 7 and 3 and the result is 3.
\<close>

theorem extract_years_experience_minimum_or_error:
  "extract_years_experience text =
     (if list_ex too_long (year_captures text) then Inl ValueError
      else if year_captures text = [] then Inr None
      else Inr (Some (Min (set (map digits_value (year_captures text))))))
   \<and> year_captures ''3-5 years and 7+ years'' = [''5'', ''7'', ''3'']
   \<and> extract_years_experience ''3-5 years and 7+ years'' = Inr (Some 3)"
proof -
  have c: "year_captures ''3-5 years and 7+ years'' = [''5'', ''7'', ''3'']"
    by code_simp
  have d: "extract_years_experience ''3-5 years and 7+ years'' = Inr (Some 3)"
    by code_simp
  from extract_years_experience_eq [of "text"] c d show ?thesis by simp
qed

theorem extract_years_experience_minimum_or_error_witness:
  "year_captures ''no number here'' = []
   \<and> extract_years_experience ''no number here'' = Inr None
   \<and> year_captures ''Minimum 4 years, ideally 6+ yrs of experience'' = [''4'', ''6'', ''4'']
   \<and> \<not> list_ex too_long (year_captures ''Minimum 4 years, ideally 6+ yrs of experience'')
   \<and> extract_years_experience ''Minimum 4 years, ideally 6+ yrs of experience'' = Inr (Some 4)"
proof -
  have h1: "year_captures ''no number here'' = []" by code_simp
  have h2: "year_captures ''Minimum 4 years, ideally 6+ yrs of experience'' = [''4'', ''6'', ''4'']"
    by code_simp
  have h3: "\<not> list_ex too_long [''4'', ''6'', ''4'']" by code_simp
  have h4: "Min (set (map digits_value [''4'', ''6'', ''4''])) = 4" by code_simp
  from extract_years_experience_minimum_or_error [of "''no number here''"]
    extract_years_experience_minimum_or_error [of "''Minimum 4 years, ideally 6+ yrs of experience''"]
    h1 h2 h3 h4
  show ?thesis by simp
qed

lemma years_tail_match:
  "rmatch (seqs years_tail) (False, '' years'', g) = [(False, [], g), (False, ''s'', g)]"
  by code_simp

lemma rep_greedy_head:
  assumes "ds \<noteq> []" and "\<And>c. c \<in> set ds \<Longrightarrow> p c" and "takeWhile p w = []"
  shows "\<exists>rest. rmatch (Rep p 1 None) (b, ds @ w, g) = (False, w, g) # rest"
proof -
  have "takeWhile p (ds @ w) = ds @ takeWhile p w"
    by (rule takeWhile_append2) (rule assms(2))
  then have t: "length (takeWhile p (ds @ w)) = length ds"
    by (simp add: assms(3))
  have l: "1 \<le> length ds" using assms(1) by (cases ds) simp_all
  then have "[1..<Suc (length ds)] = [1..<length ds] @ [length ds]"
    by (rule upt_Suc_append)
  then have u: "rev [1..<Suc (length ds)] = length ds # rev [1..<length ds]"
    by (simp only: rev_append rev.simps append_Nil append_Cons)
  have "rmatch (Rep p 1 None) (b, ds @ w, g) =
          map (\<lambda>k. (b \<and> k = 0, drop k (ds @ w), g)) (rev [1..<Suc (length ds)])"
    by (simp only: rmatch.simps t Let_def option.case)
  also have "\<dots> = (False, w, g) # map (\<lambda>k. (b \<and> k = 0, drop k (ds @ w), g)) (rev [1..<length ds])"
    using assms(1) by (simp only: u list.map) simp
  finally show ?thesis by blast
qed

lemma grp_head:
  assumes "rmatch r (b, s, g) = (b', s', g') # rest"
  shows "\<exists>rest'. rmatch (Grp r) (b, s, g) = (b', s', Some (take (length s - length s') s)) # rest'"
  by (simp add: assms)

lemma seq_head:
  assumes "rmatch r1 st = x # rest" and "rmatch r2 x = y # ys"
  shows "\<exists>rest'. rmatch (Seq r1 r2) st = y # rest'"
  by (simp add: assms)

lemma findall_head:
  assumes "rmatch r (b, s, None) = (b', [], Some ds) # rest" and "s \<noteq> []"
  shows "\<exists>more. map (\<lambda>(w, g). case g of None \<Rightarrow> [] | Some x \<Rightarrow> x) (findall_from r b s) = ds # more"
  using assms(2) by (subst findall_from.simps) (simp add: assms(1))

lemma digit_run_findall:
  assumes "0 < n"
  shows "\<exists>more. findall_group years_pattern_plus (replicate n (CHR ''1'') @ '' years'')
           = replicate n (CHR ''1'') # more"
proof -
  let ?ds = "replicate n (CHR ''1'')"
  have d: "\<And>c. c \<in> set ?ds \<Longrightarrow> is_digit c"
  proof -
    fix c assume "c \<in> set ?ds"
    then have "c = CHR ''1''" by simp
    moreover have "is_digit (CHR ''1'')" by code_simp
    ultimately show "is_digit c" by simp
  qed
  have e: "takeWhile is_digit '' years'' = []" by code_simp
  have ne: "?ds \<noteq> []" using assms by simp
  from rep_greedy_head [OF ne d e] obtain r1 where
    r1: "rmatch (Rep is_digit 1 None) (True, ?ds @ '' years'', None)
           = (False, '' years'', None) # r1"
    by blast
  from grp_head [OF r1] obtain r2 where
    r2: "rmatch (Grp (Rep is_digit 1 None)) (True, ?ds @ '' years'', None)
           = (False, '' years'', Some (take (length (?ds @ '' years'') - length '' years'')
                                          (?ds @ '' years''))) # r2"
    by blast
  have tk: "take (length (?ds @ '' years'') - length '' years'') (?ds @ '' years'') = ?ds"
    by simp
  have s: "years_pattern_plus = Seq (Grp (Rep is_digit 1 None)) (seqs years_tail)"
    by (simp add: years_pattern_plus_def seqs_def)
  from seq_head [OF r2 [unfolded tk] years_tail_match] obtain r3 where
    r3: "rmatch years_pattern_plus (True, ?ds @ '' years'', None) = (False, [], Some ?ds) # r3"
    unfolding s by blast
  have "?ds @ '' years'' \<noteq> []" by simp
  from findall_head [OF r3 this] show ?thesis
    by (simp only: findall_group_def)
qed

lemma digit_run_lower:
  "lower (replicate n (CHR ''1'') @ '' years'') = replicate n (CHR ''1'') @ '' years''"
proof -
  have a: "lower_char (CHR ''1'') = CHR ''1''" by code_simp
  have b: "lower '' years'' = '' years''" by code_simp
  have "lower (replicate n (CHR ''1'') @ '' years'')
          = map lower_char (replicate n (CHR ''1'')) @ lower '' years''"
    by (simp only: lower_def map_append)
  also have "\<dots> = replicate n (CHR ''1'') @ '' years''"
    by (simp only: b map_replicate a)
  finally show ?thesis .
qed

lemma digit_run_raises:
  assumes "max_str_digits < n"
  shows "extract_years_experience (replicate n (CHR ''1'') @ '' years'') = Inl ValueError"
proof -
  have n: "0 < n" using assms by simp
  from digit_run_findall [OF n] obtain more where
    f: "findall_group years_pattern_plus (replicate n (CHR ''1'') @ '' years'')
          = replicate n (CHR ''1'') # more"
    by blast
  have "replicate n (CHR ''1'') \<in> set (year_captures (replicate n (CHR ''1'') @ '' years''))"
    using n unfolding year_captures_def years_patterns_def digit_run_lower
    by (simp add: f)
  moreover have "too_long (replicate n (CHR ''1''))"
    using assms by (simp add: too_long_def)
  ultimately have "list_ex too_long (year_captures (replicate n (CHR ''1'') @ '' years''))"
    unfolding list_ex_iff by blast
  then show ?thesis by (simp add: extract_years_experience_eq)
qed

text \<open>
  C4 as stated fails: on a run of 4301 digits followed by \<^verbatim>\<open>years\<close> the pattern
  captures the run, \<^verbatim>\<open>int\<close> raises and no minimum is returned.
\<close>

theorem extract_years_experience_raises:
  "extract_years_experience (replicate 4301 (CHR ''1'') @ '' years'') = Inl ValueError"
  by (rule digit_run_raises) (simp add: max_str_digits_def)

text \<open>
  C5. \<open>detect_experience_level\<close> answers \<^verbatim>\<open>senior\<close> when a senior keyword occurs in
  the lowercased text, otherwise \<^verbatim>\<open>mid\<close> when a mid keyword occurs, otherwise
  \<^verbatim>\<open>entry\<close> when an entry keyword occurs, otherwise \<^verbatim>\<open>not specified\<close>.
\<close>

theorem detect_experience_level_priority:
  "detect_experience_level text = experience_level_by_priority text"
  unfolding detect_experience_level_def experience_level_by_priority_def mentions_level_def
    level_keywords_def detect_levels_def EXPERIENCE_LEVELS_def Let_def
  by simp

theorem detect_experience_level_priority_witness:
  "detect_experience_level ''Junior or Senior engineers, 3+ years'' = ''senior''
   \<and> detect_experience_level ''Junior, 3+ years'' = ''mid''
   \<and> detect_experience_level ''Junior developer'' = ''entry''
   \<and> detect_experience_level ''Developer'' = ''not specified''"
proof -
  have "experience_level_by_priority ''Junior or Senior engineers, 3+ years'' = ''senior''"
    "experience_level_by_priority ''Junior, 3+ years'' = ''mid''"
    "experience_level_by_priority ''Junior developer'' = ''entry''"
    "experience_level_by_priority ''Developer'' = ''not specified''"
    by code_simp+
  then show ?thesis by (simp only: detect_experience_level_priority)
qed

section \<open>Properties of the suggestion engine\<close>

lemma found_total:
  "sum_list (map (\<lambda>(category, v). length v)
       (map (\<lambda>(category, verbs). (category, filter P verbs)) table))
   = length (filter P (concat (map snd table)))"
  by (induction table) auto

lemma found_weak:
  "map fst (filter (\<lambda>(cat, verbs). verbs = [])
       (map (\<lambda>(category, verbs). (category, filter P verbs)) table))
   = map fst (filter (\<lambda>(cat, verbs). \<not> list_ex P verbs) table)"
  by (induction table) (auto simp: filter_empty_conv list_ex_iff)

lemma check_action_verbs_total:
  "snd (check_action_verbs resume_text) = length (verbs_present resume_text)"
  by (simp add: check_action_verbs_def verbs_present_def ALL_ACTION_VERBS_def Let_def found_total
      del: map_map)

lemma action_verb_feedback_eq:
  "action_verb_feedback resume_text =
     (if length (verbs_present resume_text) < 5 then [action_verb_warning]
      else if length (verbs_present resume_text) < 10 then
        (if empty_verb_categories resume_text \<noteq> []
         then [action_verb_info (empty_verb_categories resume_text)] else [])
      else [])"
  by (simp add: action_verb_feedback_def check_action_verbs_def verbs_present_def
      empty_verb_categories_def ALL_ACTION_VERBS_def Let_def found_total found_weak
      del: map_map)

text \<open>
  C6, as the code has it. The action-verb rule counts the verbs of the fixed list that
  occur in the lowercased resume text, each verb once however often it occurs: fewer
  than 5 give the warning item, 5 to 9 give the info item naming up to two categories
  without a verb (when there is such a category), 10 or more give no item.
\<close>

theorem action_verb_rule_counts_verbs_present:
  "snd (check_action_verbs resume_text) = length (verbs_present resume_text)
   \<and> distinct (verbs_present resume_text)
   \<and> (length (verbs_present resume_text) < 5 \<longrightarrow>
        action_verb_feedback resume_text = [action_verb_warning])
   \<and> (5 \<le> length (verbs_present resume_text) \<and> length (verbs_present resume_text) < 10 \<longrightarrow>
        action_verb_feedback resume_text =
          (if empty_verb_categories resume_text \<noteq> []
           then [action_verb_info (empty_verb_categories resume_text)] else []))
   \<and> (10 \<le> length (verbs_present resume_text) \<longrightarrow> action_verb_feedback resume_text = [])"
proof -
  have d: "distinct ALL_ACTION_VERBS" by code_simp
  then have "distinct (verbs_present resume_text)" by (simp add: verbs_present_def)
  then show ?thesis
    by (simp add: check_action_verbs_total action_verb_feedback_eq)
qed


theorem action_verb_rule_counts_verbs_present_witness:
  "length (verbs_present ''Led the team'') < 5
   \<and> action_verb_feedback ''Led the team'' = [action_verb_warning]
   \<and> 5 \<le> length (verbs_present ''Led, managed, achieved, created and improved'')
   \<and> length (verbs_present ''Led, managed, achieved, created and improved'') < 10
   \<and> action_verb_feedback ''Led, managed, achieved, created and improved'' =
       [action_verb_info [''technical'', ''analysis'']]
   \<and> 10 \<le> length (verbs_present
        ''led managed directed supervised coordinated oversaw achieved accomplished exceeded delivered'')
   \<and> action_verb_feedback
        ''led managed directed supervised coordinated oversaw achieved accomplished exceeded delivered''
       = []"
proof -
  have h1: "length (verbs_present ''Led the team'') = 1"
    by code_simp
  have h2: "length (verbs_present ''Led, managed, achieved, created and improved'') = 5"
    by code_simp
  have e2: "empty_verb_categories ''Led, managed, achieved, created and improved'' =
      [''technical'', ''analysis'']"
    by code_simp
  have h3: "length (verbs_present
        ''led managed directed supervised coordinated oversaw achieved accomplished exceeded delivered'')
      = 10"
    by code_simp
  from action_verb_rule_counts_verbs_present [of "''Led the team''"]
    action_verb_rule_counts_verbs_present [of "''Led, managed, achieved, created and improved''"]
    action_verb_rule_counts_verbs_present [of
      "''led managed directed supervised coordinated oversaw achieved accomplished exceeded delivered''"]
    h1 h2 e2 h3
  show ?thesis by simp
qed

text \<open>
  C6 as stated fails: in a resume where the one verb \<^verbatim>\<open>led\<close> occurs five times the
  occurrences number 5, the rule counts 1 and gives the warning item.
\<close>

theorem action_verbs_not_counted_by_occurrence:
  "total_occurrences ''led led led led led'' = 5
   \<and> snd (check_action_verbs ''led led led led led'') = 1
   \<and> action_verb_feedback ''led led led led led'' = [action_verb_warning]
   \<and> type action_verb_warning = ''warning''"
  by code_simp

text \<open>
  C7. The education item is wanted when the job description asks for a master's degree
  or a doctorate and the resume has neither. The code gives it for \<^verbatim>\<open>masters\<close> and
  not for \<^verbatim>\<open>phd\<close> alone: its inner test asks for \<^verbatim>\<open>masters\<close> again.
\<close>

theorem education_tip_missing_for_phd:
  "detect_education_requirement ''PhD required'' = [''phd'']
   \<and> detect_education_requirement ''B.Sc. in physics'' = [''bachelors'']
   \<and> education_feedback [''phd''] [''bachelors''] = []
   \<and> education_feedback [''masters''] [''bachelors''] = [education_tip]
   \<and> (case analyze_resume ''B.Sc. in physics'' ''PhD required'' of
         Inl e \<Rightarrow> False
       | Inr a \<Rightarrow>
           jd_education a = [''phd''] \<and> resume_education a = [''bachelors'']
           \<and> education_tip \<notin> set (generate_suggestions ''B.Sc. in physics'' a))"
  by code_simp

lemma score_feedback_single:
  "\<exists>item. score_feedback score = [item] \<and> is_score_item item \<and> type item = score_band score"
  by (simp add: score_feedback_def score_band_def is_score_item_def)

lemma high_priority_no_score: "filter is_score_item (high_priority_feedback hpm) = []"
  by (simp add: high_priority_feedback_def is_score_item_def)

lemma category_no_score: "filter is_score_item (category_feedback cats) = []"
  by (simp add: category_feedback_def is_score_item_def)

lemma experience_no_score: "filter is_score_item (experience_feedback level years) = []"
  by (simp add: experience_feedback_def is_score_item_def split: option.splits)

lemma action_verb_no_score: "filter is_score_item (action_verb_feedback resume_text) = []"
  by (simp add: action_verb_feedback_def action_verb_warning_def action_verb_info_def
      is_score_item_def Let_def split: prod.splits)

lemma metrics_no_score: "filter is_score_item (metrics_feedback resume_text) = []"
  by (simp add: metrics_feedback_def is_score_item_def Let_def split: prod.splits)

lemma length_no_score: "filter is_score_item (length_feedback resume_text) = []"
  by (simp add: length_feedback_def is_score_item_def Let_def split: prod.splits)

lemma sections_no_score: "filter is_score_item (sections_feedback resume_text) = []"
  by (simp add: sections_feedback_def is_score_item_def Let_def split: prod.splits)

lemma contact_no_score: "filter is_score_item (contact_feedback resume_text) = []"
  by (simp add: contact_feedback_def is_score_item_def Let_def)

lemma context_no_score: "filter is_score_item (context_feedback resume_text matched) = []"
  by (simp add: context_feedback_def is_score_item_def Let_def split: prod.splits)

lemma ats_no_score: "\<not> is_score_item ats_tip"
  by (simp add: ats_tip_def is_score_item_def)

lemma education_no_score: "filter is_score_item (education_feedback jd_edu resume_edu) = []"
  by (simp add: education_feedback_def education_tip_def is_score_item_def)

text \<open>
  C9. For every resume text and every analysis result \<open>generate_suggestions\<close> returns
  at least two items: the first is the score-band item, of the type of the band the
  score falls in, no other item is a score-band item, and the item on ATS optimization
  is among them.
\<close>

theorem generate_suggestions_band_and_ats:
  "2 \<le> length (generate_suggestions resume_text a)
   \<and> is_score_item (hd (generate_suggestions resume_text a))
   \<and> type (hd (generate_suggestions resume_text a)) = score_band (match_score a)
   \<and> length (filter is_score_item (generate_suggestions resume_text a)) = 1
   \<and> ats_tip \<in> set (generate_suggestions resume_text a)"
proof -
  obtain item where i: "score_feedback (match_score a) = [item]" "is_score_item item"
    "type item = score_band (match_score a)"
    using score_feedback_single by blast
  show ?thesis
    unfolding generate_suggestions_def i(1)
    using i(2,3)
    by (simp add: high_priority_no_score category_no_score experience_no_score
        action_verb_no_score metrics_no_score length_no_score sections_no_score
        contact_no_score context_no_score ats_no_score education_no_score)
qed

theorem generate_suggestions_band_and_ats_witness:
  "2 \<le> length (generate_suggestions ''Led a team of 5 engineers.''
        \<lparr>match_score = 667 / 10, matched_skills = [''django'', ''python''],
         missing_skills = [''kubernetes''], extra_skills = [], high_priority_missing = [],
         matched_categories = empty_categories, missing_categories = empty_categories,
         resume_skill_count = 2, jd_skill_count = 3, jd_experience_level = ''senior'',
         jd_years_required = Some 5, jd_education = [],
         resume_experience_level = ''not specified'', resume_education = []\<rparr>)
   \<and> type (hd (generate_suggestions ''Led a team of 5 engineers.''
        \<lparr>match_score = 667 / 10, matched_skills = [''django'', ''python''],
         missing_skills = [''kubernetes''], extra_skills = [], high_priority_missing = [],
         matched_categories = empty_categories, missing_categories = empty_categories,
         resume_skill_count = 2, jd_skill_count = 3, jd_experience_level = ''senior'',
         jd_years_required = Some 5, jd_education = [],
         resume_experience_level = ''not specified'', resume_education = []\<rparr>)) = ''info''
   \<and> ats_tip \<in> set (generate_suggestions ''Led a team of 5 engineers.''
        \<lparr>match_score = 667 / 10, matched_skills = [''django'', ''python''],
         missing_skills = [''kubernetes''], extra_skills = [], high_priority_missing = [],
         matched_categories = empty_categories, missing_categories = empty_categories,
         resume_skill_count = 2, jd_skill_count = 3, jd_experience_level = ''senior'',
         jd_years_required = Some 5, jd_education = [],
         resume_experience_level = ''not specified'', resume_education = []\<rparr>)"
proof -
  have b: "score_band (667 / 10) = ''info''"
    by (simp add: score_band_def)
  from generate_suggestions_band_and_ats [of "''Led a team of 5 engineers.''"
        "\<lparr>match_score = 667 / 10, matched_skills = [''django'', ''python''],
         missing_skills = [''kubernetes''], extra_skills = [], high_priority_missing = [],
         matched_categories = empty_categories, missing_categories = empty_categories,
         resume_skill_count = 2, jd_skill_count = 3, jd_experience_level = ''senior'',
         jd_years_required = Some 5, jd_education = [],
         resume_experience_level = ''not specified'', resume_education = []\<rparr>"] b
  show ?thesis by simp
qed

section \<open>Properties of skill extraction\<close>

text \<open>
  C8. Extracting the skills of the text \<^verbatim>\<open>I use js daily\<close> finds \<^verbatim>\<open>javascript\<close>: the
  token \<^verbatim>\<open>js\<close> is an alias, its expansion is appended to the preprocessed text, which
  keeps the token, and the pattern of the skill matches the appended word.
\<close>

theorem extract_skills_alias_js:
  "preprocess_text ''I use js daily'' = ''i use js daily''
   \<and> normalize_skill ''js'' = ''javascript''
   \<and> expand_aliases (preprocess_text ''I use js daily'') = ''i use js daily javascript''
   \<and> ''javascript'' \<in> set (extract_skills ''I use js daily'' ALL_SKILLS)"
  by code_simp

lemma analyze_adjacent:
  "analyze_resume '''' ''python python'' =
     Inr \<lparr>match_score = 0, matched_skills = [], missing_skills = [''python''],
          extra_skills = [], high_priority_missing = [],
          matched_categories = empty_categories,
          missing_categories = empty_categories\<lparr>programming := [''python'']\<rparr>,
          resume_skill_count = 0, jd_skill_count = 1,
          jd_experience_level = ''not specified'', jd_years_required = None,
          jd_education = [], resume_experience_level = ''not specified'',
          resume_education = []\<rparr>"
  by code_simp

lemma analyze_apart:
  "map_sum id high_priority_missing (analyze_resume '''' ''python and python'')
     = Inr [''python'']"
  by code_simp

text \<open>
  C10. In the text \<^verbatim>\<open>python python\<close> the skill is counted once: the first match takes
  the space that the second would need before it. A job description that names the skill
  only so does not make it a high-priority missing skill; with a word between the two
  mentions the count is 2 and it does.
\<close>

theorem adjacent_skill_counted_once:
  "findall (skill_pattern ''python'') '' python python '' = ['' python '']
   \<and> get_skill_frequency ''python python'' [''python''] ''python'' = Some 1
   \<and> map_sum id missing_skills (analyze_resume '''' ''python python'') = Inr [''python'']
   \<and> map_sum id high_priority_missing (analyze_resume '''' ''python python'') = Inr []
   \<and> get_skill_frequency ''python and python'' [''python''] ''python'' = Some 2
   \<and> map_sum id high_priority_missing (analyze_resume '''' ''python and python'')
       = Inr [''python'']"
proof -
  have a: "findall (skill_pattern ''python'') '' python python '' = ['' python '']"
    by code_simp
  have b: "get_skill_frequency ''python python'' [''python''] ''python'' = Some 1"
    by code_simp
  have c: "get_skill_frequency ''python and python'' [''python''] ''python'' = Some 2"
    by code_simp
  from a b c analyze_apart show ?thesis
    by (simp add: analyze_adjacent)
qed

end
